theory Spec2Isabelle
  imports Main
begin

section \<open>Order placement and update of \<open>src/controllers/orderController.js\<close>\<close>

text \<open>
  The controller talks to two MongoDB collections through the Mongoose models \<open>Product\<close>
  and \<open>Order\<close>. The embedding keeps the collections as an explicit store that every
  handler takes and returns, and renders each \<open>res.status(..).json(..)\<close> as a value of
  the datatype \<open>response\<close>.

  Quantities are JavaScript numbers in the source; the model takes them as unbounded
  integers (fractional and non-numeric quantities are outside the model). Identifiers are
  strings.
\<close>

subsection \<open>Data\<close>

type_synonym pid = string
type_synonym oid = string

text \<open>A delivery address is a JSON object: a finite map from field names to values.\<close>

type_synonym address = "string \<rightharpoonup> string"

text \<open>One element of \<open>req.body.products\<close>: \<open>{ productId, quantity }\<close>.\<close>

record lineItem =
  productId :: pid
  quantity :: int

text \<open>
  \<open>req.body\<close> as \<open>createOrder\<close> reads it. \<open>deliveryAddress = None\<close> stands for a
  missing (or otherwise falsy) address, \<open>products = None\<close> for a \<open>products\<close> field that
  is missing or not an array.
\<close>

record body =
  deliveryAddress :: "address option"
  products :: "lineItem list option"

text \<open>
  A stored Order document: its \<open>deliveryAddress\<close> and its \<open>products\<close> (the line items).
  The fields carry the prefix \<open>order\<close> to keep them apart from those of \<open>body\<close>.
\<close>

record order =
  orderAddress :: address
  orderProducts :: "lineItem list"

text \<open>
  The store: for every product identifier the \<open>quantity\<close> field of its Product document
  (the only field the controller reads or writes), and the Order documents by identifier.
\<close>

record store =
  productQty :: "pid \<rightharpoonup> int"
  orders :: "oid \<rightharpoonup> order"

text \<open>
  A parsed JSON value, for the request body of \<open>updateOrder\<close>, which goes to the store
  as it is. An object is the map from its keys to their values; numbers are integers, as
  above.
\<close>

datatype json =
    JNull
  | JBool bool
  | JNum int
  | JStr string
  | JArr "json list"
  | JObj "string \<Rightarrow> json option"

text \<open>
  The calls the handlers make on the models, in the order they are issued. They serve as
  the log of store accesses of one handler run.
\<close>

datatype storeOp =
    FindProduct pid           \<comment> \<open>\<open>Product.findById(productId)\<close>\<close>
  | SaveOrder oid order       \<comment> \<open>\<open>newOrder.save()\<close>\<close>
  | IncProduct pid int        \<comment> \<open>\<open>Product.findByIdAndUpdate(productId, {$inc: {quantity: n}})\<close>\<close>
  | FindOrder oid             \<comment> \<open>\<open>Order.findById(id)\<close>\<close>
  | UpdateOrder oid json      \<comment> \<open>\<open>Order.findByIdAndUpdate(id, req.body, {new: true})\<close>\<close>
  | PopulateOrder oid         \<comment> \<open>\<open>.populate("products.productId")\<close> on the updated order\<close>

text \<open>
  Every handler body sits in \<open>try { .. } catch (error) { res.status(500) .. }\<close>. The
  source itself throws nothing; an exception can only come out of a model call (a cast
  error on a malformed identifier, a schema validation error of \<open>save\<close>, a lost
  connection). Neither the schemas nor the library are part of the source, so which
  calls fail is a parameter \<open>throws\<close> of the handlers.
\<close>

type_synonym failures = "storeOp \<Rightarrow> bool"

definition allSucceed :: failures where
  "allSucceed op = False"

datatype response =
    InvalidInput                \<comment> \<open>400, "Please provide valid delivery address and at least one product"\<close>
  | Insufficient "string list"  \<comment> \<open>400, "One or more products have insufficient quantity", with \<open>errors\<close>\<close>
  | OrderCreated oid order      \<comment> \<open>201, "Order created successfully", with the saved order\<close>
  | Failed                      \<comment> \<open>500, the \<open>catch\<close> branch\<close>
  | InvalidId                   \<comment> \<open>400, "Invalid order ID format"\<close>
  | NotFound                    \<comment> \<open>404, "Order not found"\<close>
  | OrderUpdated order          \<comment> \<open>200, "Order updated successfully", with the updated order\<close>

subsection \<open>Store operations\<close>

definition findById :: "store \<Rightarrow> pid \<Rightarrow> int option" where
  "findById st p = productQty st p"

text \<open>
  \<open>findByIdAndUpdate(productId, {$inc: {quantity: n}})\<close>: adds \<open>n\<close> to the quantity of
  the document with that identifier; no document, no change. The update carries no
  condition on the current quantity.
\<close>

definition findByIdAndUpdate_inc :: "pid \<Rightarrow> int \<Rightarrow> store \<Rightarrow> store" where
  "findByIdAndUpdate_inc p n st =
     (case productQty st p of
        None \<Rightarrow> st
      | Some q \<Rightarrow> st\<lparr>productQty := (productQty st)(p \<mapsto> q + n)\<rparr>)"

definition save :: "oid \<Rightarrow> order \<Rightarrow> store \<Rightarrow> store" where
  "save newId newOrder st = st\<lparr>orders := (orders st)(newId \<mapsto> newOrder)\<rparr>"

subsection \<open>\<open>createOrder\<close>\<close>

definition notEnough :: string where
  "notEnough = ''Not enough quantity available for a product''"

text \<open>
  The condition of line 22, \<open>!existingProduct || existingProduct.quantity < quantity\<close>,
  on the result of the read.
\<close>

definition lacking :: "int option \<Rightarrow> int \<Rightarrow> bool" where
  "lacking existingProduct q =
     (case existingProduct of None \<Rightarrow> True | Some have \<Rightarrow> have < q)"

text \<open>
  The callback of \<open>productChecks\<close> (lines 19 to 25) for one element: the messages it
  pushes on \<open>errorMessages\<close>.
\<close>

definition productCheck :: "store \<Rightarrow> lineItem \<Rightarrow> string list" where
  "productCheck st product =
     (let existingProduct = findById st (productId product) in
      if lacking existingProduct (quantity product) then [notEnough] else [])"

text \<open>
  All checks read the store as it is before the handler has written anything;
  \<open>errorMessages\<close> collects what they push. Every pushed message is the same string, so
  the order in which the reads complete does not show in the result.
\<close>

fun productChecks :: "store \<Rightarrow> lineItem list \<Rightarrow> string list \<Rightarrow> string list" where
  "productChecks st [] errorMessages = errorMessages"
| "productChecks st (product # rest) errorMessages =
     productChecks st rest (errorMessages @ productCheck st product)"

text \<open>
  \<open>productUpdates\<close> (lines 41 to 48): one \<open>$inc\<close> by \<open>-quantity\<close> per element. All
  updates are issued before any is awaited, so an update that throws does not hold back
  the others.
\<close>

fun productUpdates :: "failures \<Rightarrow> lineItem list \<Rightarrow> store \<Rightarrow> store" where
  "productUpdates throws [] st = st"
| "productUpdates throws (product # rest) st =
     productUpdates throws rest
       (if throws (IncProduct (productId product) (- quantity product)) then st
        else findByIdAndUpdate_inc (productId product) (- quantity product) st)"

definition reads :: "lineItem list \<Rightarrow> storeOp list" where
  "reads items = map (\<lambda>product. FindProduct (productId product)) items"

definition writes :: "lineItem list \<Rightarrow> storeOp list" where
  "writes items = map (\<lambda>product. IncProduct (productId product) (- quantity product)) items"

text \<open>
  \<open>createOrder\<close>, lines 5 to 64. \<open>newId\<close> is the identifier that \<open>new Order(req.body)\<close>
  generates. The result is the response, the store afterwards and the store calls issued.
\<close>

definition createOrder :: "failures \<Rightarrow> oid \<Rightarrow> body \<Rightarrow> store \<Rightarrow> response \<times> store \<times> storeOp list" where
  "createOrder throws newId req st =
     (case deliveryAddress req of
        None \<Rightarrow> (InvalidInput, st, [])
      | Some addr \<Rightarrow>
         (case products req of
            None \<Rightarrow> (InvalidInput, st, [])
          | Some [] \<Rightarrow> (InvalidInput, st, [])
          | Some (p # ps) \<Rightarrow>
             (let items = p # ps in
              if list_ex throws (reads items) then (Failed, st, reads items)
              else
                let errorMessages = productChecks st items [] in
                if errorMessages \<noteq> [] then (Insufficient errorMessages, st, reads items)
                else
                  let newOrder = \<lparr>orderAddress = addr, orderProducts = items\<rparr> in
                  if throws (SaveOrder newId newOrder)
                  then (Failed, st, reads items @ [SaveOrder newId newOrder])
                  else
                    let st1 = save newId newOrder st;
                        st2 = productUpdates throws items st1
                    in (if list_ex throws (writes items) then Failed
                        else OrderCreated newId newOrder,
                        st2,
                        reads items @ [SaveOrder newId newOrder] @ writes items))))"

subsection \<open>\<open>updateOrder\<close>\<close>








subsection \<open>Several placements in flight\<close>

text \<open>
  Node runs a handler until it awaits a store call; other handlers run in between. One
  placement in flight is therefore a sequence of store calls, given here by the state it
  is in between two calls.
\<close>

datatype placement =
    Checking oid order "lineItem list" "string list"
      \<comment> \<open>reads still to complete, \<open>errorMessages\<close> so far\<close>
  | Saving oid order
  | Updating oid order "lineItem list" bool
      \<comment> \<open>updates still to complete, whether one has thrown\<close>
  | Responded response

definition start :: "oid \<Rightarrow> body \<Rightarrow> placement" where
  "start newId req =
     (case deliveryAddress req of
        None \<Rightarrow> Responded InvalidInput
      | Some addr \<Rightarrow>
         (case products req of
            None \<Rightarrow> Responded InvalidInput
          | Some [] \<Rightarrow> Responded InvalidInput
          | Some (p # ps) \<Rightarrow>
              Checking newId \<lparr>orderAddress = addr, orderProducts = p # ps\<rparr> (p # ps) []))"

text \<open>One store call of a placement, and what the handler does with its result.\<close>

fun step :: "failures \<Rightarrow> placement \<Rightarrow> store \<Rightarrow> placement \<times> store" where
  "step throws (Checking newId newOrder [] errorMessages) st =
     (if errorMessages \<noteq> [] then Responded (Insufficient errorMessages)
      else Saving newId newOrder, st)"
| "step throws (Checking newId newOrder (product # rest) errorMessages) st =
     (if throws (FindProduct (productId product)) then (Responded Failed, st)
      else
        let errorMessages' = errorMessages @ productCheck st product in
        if rest \<noteq> [] then (Checking newId newOrder rest errorMessages', st)
        else if errorMessages' \<noteq> [] then (Responded (Insufficient errorMessages'), st)
        else (Saving newId newOrder, st))"
| "step throws (Saving newId newOrder) st =
     (if throws (SaveOrder newId newOrder) then (Responded Failed, st)
      else (Updating newId newOrder (orderProducts newOrder) False, save newId newOrder st))"
| "step throws (Updating newId newOrder [] thrown) st =
     (Responded (if thrown then Failed else OrderCreated newId newOrder), st)"
| "step throws (Updating newId newOrder (product # rest) thrown) st =
     (let fails = throws (IncProduct (productId product) (- quantity product));
          st' = (if fails then st
                 else findByIdAndUpdate_inc (productId product) (- quantity product) st);
          thrown' = (thrown \<or> fails)
      in if rest \<noteq> [] then (Updating newId newOrder rest thrown', st')
         else (Responded (if thrown' then Failed else OrderCreated newId newOrder), st'))"
| "step throws (Responded r) st = (Responded r, st)"

text \<open>
  A schedule names, call by call, the placement whose next store call completes. A
  number that names no placement is skipped.
\<close>

fun run :: "failures \<Rightarrow> nat list \<Rightarrow> placement list \<times> store \<Rightarrow> placement list \<times> store" where
  "run throws [] cfg = cfg"
| "run throws (i # schedule) (ps, st) =
     (if i < length ps
      then (let (p', st') = step throws (ps ! i) st in run throws schedule (ps[i := p'], st'))
      else run throws schedule (ps, st))"

subsection \<open>Placements one after the other\<close>

text \<open>
  \<open>placeAll\<close> hands the requests to \<open>createOrder\<close> in turn, each on the store the one
  before has left. \<open>requested p items\<close> is the total quantity the line items \<open>items\<close> ask
  of product \<open>p\<close>, \<open>accepted p rs\<close> the total over the orders created among the responses
  \<open>rs\<close>, and \<open>namesOnce\<close> holds of a request that names no product twice.
\<close>

fun placeAll :: "failures \<Rightarrow> (oid \<times> body) list \<Rightarrow> store \<Rightarrow> response list \<times> store" where
  "placeAll throws [] st = ([], st)"
| "placeAll throws ((newId, req) # later) st =
     (case createOrder throws newId req st of
        (r, st1, log) \<Rightarrow> (case placeAll throws later st1 of (rs, st2) \<Rightarrow> (r # rs, st2)))"

definition requested :: "pid \<Rightarrow> lineItem list \<Rightarrow> int" where
  "requested p items = sum_list (map quantity (filter (\<lambda>product. productId product = p) items))"

fun accepted :: "pid \<Rightarrow> response list \<Rightarrow> int" where
  "accepted p [] = 0"
| "accepted p (OrderCreated i newOrder # rs) = requested p (orderProducts newOrder) + accepted p rs"
| "accepted p (r # rs) = accepted p rs"

definition namesOnce :: "body \<Rightarrow> bool" where
  "namesOnce req =
     (case products req of None \<Rightarrow> True | Some items \<Rightarrow> distinct (map productId items))"

subsection \<open>Scenario data\<close>

text \<open>
  The building blocks of the scenarios the properties below are run on: identifiers of
  three products and two orders, a delivery address, a line item, a well-formed request,
  and a store that holds one product (or two) and no order. \<open>isObjectId\<close> accepts the
  strings of 24 hexadecimal digits and the strings of 12 characters; the scenarios take
  it for \<open>isValid\<close>.
\<close>

definition idA :: pid where "idA = ''65f1c0a2b3d4e5f6a7b8c9a1''"
definition idB :: pid where "idB = ''65f1c0a2b3d4e5f6a7b8c9b2''"
definition idC :: pid where "idC = ''65f1c0a2b3d4e5f6a7b8c9c3''"
definition order1 :: oid where "order1 = ''66a2d1b3c4e5f6a7b8c9d0e1''"
definition order2 :: oid where "order2 = ''66a2d1b3c4e5f6a7b8c9d0e2''"

definition isObjectId :: "string \<Rightarrow> bool" where
  "isObjectId s =
     (length s = 12 \<or>
      (length s = 24 \<and> list_all (\<lambda>c. c \<in> set ''0123456789abcdefABCDEF'') s))"

definition anAddress :: address where
  "anAddress = [''city'' \<mapsto> ''Lahore'']"

definition item :: "pid \<Rightarrow> int \<Rightarrow> lineItem" where
  "item p q = \<lparr>productId = p, quantity = q\<rparr>"

definition request :: "lineItem list \<Rightarrow> body" where
  "request items = \<lparr>deliveryAddress = Some anAddress, products = Some items\<rparr>"

definition placed :: "lineItem list \<Rightarrow> order" where
  "placed items = \<lparr>orderAddress = anAddress, orderProducts = items\<rparr>"

definition stockOf :: "pid \<Rightarrow> int \<Rightarrow> store" where
  "stockOf p q = \<lparr>productQty = [p \<mapsto> q], orders = Map.empty\<rparr>"

definition stockOf2 :: "pid \<Rightarrow> int \<Rightarrow> pid \<Rightarrow> int \<Rightarrow> store" where
  "stockOf2 p q p' q' = \<lparr>productQty = [p \<mapsto> q, p' \<mapsto> q'], orders = Map.empty\<rparr>"





lemmas scenario_defs =
  anAddress_def item_def request_def placed_def stockOf_def stockOf2_def allSucceed_def

lemmas handler_defs =
  createOrder_def reads_def writes_def productCheck_def lacking_def findById_def
  findByIdAndUpdate_inc_def save_def Let_def

lemmas step_defs =
  start_def productCheck_def lacking_def findById_def findByIdAndUpdate_inc_def save_def Let_def


section \<open>Properties\<close>

lemma ids_distinct [simp]:
  "idA \<noteq> idB" "idB \<noteq> idA" "idA \<noteq> idC" "idC \<noteq> idA" "idB \<noteq> idC" "idC \<noteq> idB"
  "order1 \<noteq> order2" "order2 \<noteq> order1"
  by (simp_all add: idA_def idB_def idC_def order1_def order2_def)

lemma ids_wellformed [simp]:
  "isObjectId idA" "isObjectId idB" "isObjectId idC" "isObjectId order1" "isObjectId order2"
  by (simp_all add: isObjectId_def idA_def idB_def idC_def order1_def order2_def)

subsection \<open>The availability check\<close>

lemma productChecks_append:
  "productChecks st items acc = acc @ concat (map (productCheck st) items)"
  by (induction items arbitrary: acc) simp_all

lemma productChecks_replicate:
  "productChecks st items [] =
     replicate
       (length (filter (\<lambda>product. lacking (findById st (productId product)) (quantity product)) items))
       notEnough"
proof (induction items)
  case Nil
  show ?case by simp
next
  case (Cons product rest)
  have "productChecks st (product # rest) [] = productCheck st product @ productChecks st rest []"
    by (simp add: productChecks_append)
  with Cons show ?case by (simp add: productCheck_def)
qed

lemma productChecks_empty_iff:
  "productChecks st items [] = [] \<longleftrightarrow>
     \<not> list_ex (\<lambda>product. lacking (findById st (productId product)) (quantity product)) items"
  by (simp add: productChecks_replicate list_ex_iff filter_empty_conv)

subsection \<open>The stock updates\<close>

lemma orders_findByIdAndUpdate_inc [simp]:
  "orders (findByIdAndUpdate_inc p n st) = orders st"
  by (simp add: findByIdAndUpdate_inc_def split: option.splits)

lemma orders_productUpdates [simp]:
  "orders (productUpdates throws items st) = orders st"
  by (induction items arbitrary: st) simp_all

subsection \<open>The five ways through \<open>createOrder\<close>\<close>

lemma createOrder_cases:
  obtains
    (invalid) "deliveryAddress req = None \<or> products req = None \<or> products req = Some []"
      "createOrder throws newId req st = (InvalidInput, st, [])"
  | (read_failed) addr items where
      "deliveryAddress req = Some addr" "products req = Some items" "items \<noteq> []"
      "list_ex throws (reads items)"
      "createOrder throws newId req st = (Failed, st, reads items)"
  | (shortage) addr items where
      "deliveryAddress req = Some addr" "products req = Some items" "items \<noteq> []"
      "\<not> list_ex throws (reads items)" "productChecks st items [] \<noteq> []"
      "createOrder throws newId req st = (Insufficient (productChecks st items []), st, reads items)"
  | (save_failed) addr items where
      "deliveryAddress req = Some addr" "products req = Some items" "items \<noteq> []"
      "\<not> list_ex throws (reads items)" "productChecks st items [] = []"
      "throws (SaveOrder newId \<lparr>orderAddress = addr, orderProducts = items\<rparr>)"
      "createOrder throws newId req st =
         (Failed, st, reads items @ [SaveOrder newId \<lparr>orderAddress = addr, orderProducts = items\<rparr>])"
  | (saved) addr items where
      "deliveryAddress req = Some addr" "products req = Some items" "items \<noteq> []"
      "\<not> list_ex throws (reads items)" "productChecks st items [] = []"
      "\<not> throws (SaveOrder newId \<lparr>orderAddress = addr, orderProducts = items\<rparr>)"
      "createOrder throws newId req st =
         (if list_ex throws (writes items) then Failed
          else OrderCreated newId \<lparr>orderAddress = addr, orderProducts = items\<rparr>,
          productUpdates throws items (save newId \<lparr>orderAddress = addr, orderProducts = items\<rparr> st),
          reads items @ [SaveOrder newId \<lparr>orderAddress = addr, orderProducts = items\<rparr>] @ writes items)"
proof (cases "deliveryAddress req")
  case None
  then show ?thesis using invalid by (simp add: createOrder_def)
next
  case (Some addr)
  note addr = this
  show ?thesis
  proof (cases "products req")
    case None
    then show ?thesis using invalid addr by (simp add: createOrder_def)
  next
    case (Some items)
    note items = this
    show ?thesis
    proof (cases items)
      case Nil
      then show ?thesis using invalid addr items by (simp add: createOrder_def)
    next
      case (Cons p ps)
      then have ne: "items \<noteq> []" by simp
      have unfolded: "createOrder throws newId req st =
        (if list_ex throws (reads items) then (Failed, st, reads items)
         else if productChecks st items [] \<noteq> []
           then (Insufficient (productChecks st items []), st, reads items)
         else if throws (SaveOrder newId \<lparr>orderAddress = addr, orderProducts = items\<rparr>)
           then (Failed, st,
                 reads items @ [SaveOrder newId \<lparr>orderAddress = addr, orderProducts = items\<rparr>])
         else (if list_ex throws (writes items) then Failed
               else OrderCreated newId \<lparr>orderAddress = addr, orderProducts = items\<rparr>,
               productUpdates throws items
                 (save newId \<lparr>orderAddress = addr, orderProducts = items\<rparr> st),
               reads items @ [SaveOrder newId \<lparr>orderAddress = addr, orderProducts = items\<rparr>]
                 @ writes items))"
        unfolding createOrder_def Let_def using addr items Cons by simp
      show ?thesis
      proof (cases "list_ex throws (reads items)")
        case True
        then show ?thesis using read_failed[OF addr items ne] unfolded by simp
      next
        case noread: False
        show ?thesis
        proof (cases "productChecks st items [] = []")
          case False
          then show ?thesis using shortage[OF addr items ne noread] unfolded noread by simp
        next
          case chk: True
          show ?thesis
          proof (cases "throws (SaveOrder newId \<lparr>orderAddress = addr, orderProducts = items\<rparr>)")
            case True
            then show ?thesis
              using save_failed[OF addr items ne noread chk] unfolded noread chk by simp
          next
            case False
            then show ?thesis
              using saved[OF addr items ne noread chk] unfolded noread chk by simp
          qed
        qed
      qed
    qed
  qed
qed

subsection \<open>A placement that runs with nothing in between is \<open>createOrder\<close>\<close>

lemma run_append: "run throws (s1 @ s2) cfg = run throws s2 (run throws s1 cfg)"
  by (induction s1 arbitrary: cfg) (auto split: prod.splits)

lemma run_Responded: "run throws (replicate n 0) ([Responded r], st) = ([Responded r], st)"
  by (induction n) simp_all

lemma run_Checking:
  "items \<noteq> [] \<Longrightarrow>
   run throws (replicate (length items) 0) ([Checking newId newOrder items errs], st) =
     ([if list_ex throws (reads items) then Responded Failed
       else if productChecks st items errs \<noteq> []
         then Responded (Insufficient (productChecks st items errs))
       else Saving newId newOrder], st)"
proof (induction items arbitrary: errs)
  case Nil
  then show ?case by simp
next
  case (Cons product rest)
  show ?case
  proof (cases "throws (FindProduct (productId product))")
    case True
    then show ?thesis by (simp add: reads_def run_Responded)
  next
    case False
    show ?thesis
    proof (cases "rest = []")
      case True
      with False show ?thesis by (simp add: reads_def Let_def)
    next
      case rest: False
      from Cons.IH[OF rest, of "errs @ productCheck st product"] False rest
      show ?thesis by (simp add: reads_def Let_def)
    qed
  qed
qed

lemma run_Updating:
  "items \<noteq> [] \<Longrightarrow>
   run throws (replicate (length items) 0) ([Updating newId newOrder items thrown], st) =
     ([Responded (if thrown \<or> list_ex throws (writes items) then Failed
                  else OrderCreated newId newOrder)],
      productUpdates throws items st)"
proof (induction items arbitrary: thrown st)
  case Nil
  then show ?case by simp
next
  case (Cons product rest)
  show ?case
  proof (cases "rest = []")
    case True
    then show ?thesis by (simp add: writes_def Let_def)
  next
    case False
    from Cons.IH[OF False] False show ?thesis by (simp add: writes_def Let_def)
  qed
qed

text \<open>A placement that is still checking has written nothing, whatever runs beside it.\<close>

lemma checking_never_writes:
  "step throws (Checking newId newOrder items errs) st = (p', st') \<Longrightarrow> st' = st"
  by (cases items) (auto simp: Let_def split: if_splits)

text \<open>
  Scheduled alone for at least as many calls as \<open>createOrder\<close> issues, a placement ends
  with the response and the store of \<open>createOrder\<close>.
\<close>

lemma alone_createOrder:
  assumes "createOrder throws newId req st = (r, st', log)" and "length log \<le> n"
  shows "run throws (replicate n 0) ([start newId req], st) = ([Responded r], st')"
proof (cases rule: createOrder_cases[of req throws newId st])
  case invalid
  then have "start newId req = Responded InvalidInput"
    by (auto simp: start_def split: option.splits list.splits)
  with invalid assms show ?thesis by (simp add: run_Responded)
next
  case (read_failed addr items)
  then have st: "start newId req =
      Checking newId \<lparr>orderAddress = addr, orderProducts = items\<rparr> items []"
    by (auto simp: start_def split: list.splits)
  from read_failed assms have n: "n = length items + (n - length items)"
    by (simp add: reads_def)
  have "run throws (replicate n 0) ([start newId req], st) =
      run throws (replicate (n - length items) 0)
        (run throws (replicate (length items) 0) ([start newId req], st))"
    by (subst n, simp only: replicate_add run_append)
  with read_failed assms st show ?thesis by (simp add: run_Checking run_Responded)
next
  case (shortage addr items)
  then have st: "start newId req =
      Checking newId \<lparr>orderAddress = addr, orderProducts = items\<rparr> items []"
    by (auto simp: start_def split: list.splits)
  from shortage assms have n: "n = length items + (n - length items)"
    by (simp add: reads_def)
  have "run throws (replicate n 0) ([start newId req], st) =
      run throws (replicate (n - length items) 0)
        (run throws (replicate (length items) 0) ([start newId req], st))"
    by (subst n, simp only: replicate_add run_append)
  with shortage assms st show ?thesis by (simp add: run_Checking run_Responded)
next
  case (save_failed addr items)
  then have st: "start newId req =
      Checking newId \<lparr>orderAddress = addr, orderProducts = items\<rparr> items []"
    by (auto simp: start_def split: list.splits)
  from save_failed assms have n: "n = length items + Suc (n - length items - 1)"
    by (simp add: reads_def)
  have "run throws (replicate n 0) ([start newId req], st) =
      run throws (replicate (Suc (n - length items - 1)) 0)
        (run throws (replicate (length items) 0) ([start newId req], st))"
    by (subst n, simp only: replicate_add run_append)
  with save_failed assms st show ?thesis by (simp add: run_Checking run_Responded)
next
  case (saved addr items)
  then have st: "start newId req =
      Checking newId \<lparr>orderAddress = addr, orderProducts = items\<rparr> items []"
    by (auto simp: start_def split: list.splits)
  define k where "k = n - 2 * length items - 1"
  with saved assms have n: "n = length items + (1 + (length items + k))"
    by (simp add: reads_def writes_def)
  have "replicate n (0::nat) =
      replicate (length items) 0 @ [0] @ replicate (length items) 0 @ replicate k 0"
    by (subst n) (simp add: replicate_add replicate_append_same)
  then have "run throws (replicate n 0) ([start newId req], st) =
      run throws (replicate k 0)
       (run throws (replicate (length items) 0)
         (run throws [0] (run throws (replicate (length items) 0) ([start newId req], st))))"
    by (simp only: run_append)
  with saved assms st show ?thesis by (simp add: run_Checking run_Updating run_Responded)
qed

subsection \<open>What an accepted placement does to the stock\<close>

lemma productQty_findByIdAndUpdate_inc:
  "productQty (findByIdAndUpdate_inc p n st) p' =
     (if p' = p then map_option (\<lambda>q. q + n) (productQty st p) else productQty st p')"
  by (simp add: findByIdAndUpdate_inc_def split: option.splits)

lemma productQty_productUpdates:
  "\<not> list_ex throws (writes items) \<Longrightarrow>
   productQty (productUpdates throws items st) p =
     map_option (\<lambda>q. q - requested p items) (productQty st p)"
proof (induction items arbitrary: st)
  case Nil
  show ?case by (simp add: requested_def option.map_ident)
next
  case (Cons product rest)
  from Cons.prems have here: "\<not> throws (IncProduct (productId product) (- quantity product))"
    and rest: "\<not> list_ex throws (writes rest)"
    by (simp_all add: writes_def)
  show ?case
    using Cons.IH[OF rest] here
    by (cases "productQty st p")
       (auto simp: productQty_findByIdAndUpdate_inc requested_def)
qed

text \<open>
  Every line item of a created order had its product in stock, at least in the requested
  quantity, when the placement began; and every product ends with its quantity lowered
  by all that the order asks of it, whether or not that much was there.
\<close>

lemma created_order_effect:
  assumes "createOrder throws newId req st = (OrderCreated i newOrder, st', log)"
  shows "(\<forall>product\<in>set (orderProducts newOrder).
            \<exists>q. productQty st (productId product) = Some q \<and> quantity product \<le> q)
     \<and> (\<forall>p. productQty st' p =
            map_option (\<lambda>q. q - requested p (orderProducts newOrder)) (productQty st p))"
  using assms
proof (cases rule: createOrder_cases[of req throws newId st])
  case (saved addr items)
  with assms have nothrow: "\<not> list_ex throws (writes items)"
    and ord: "newOrder = \<lparr>orderAddress = addr, orderProducts = items\<rparr>"
    and st': "st' = productUpdates throws items
                (save newId \<lparr>orderAddress = addr, orderProducts = items\<rparr> st)"
    by (auto split: if_splits)
  from saved(5)
  have "\<forall>product\<in>set items. \<not> lacking (findById st (productId product)) (quantity product)"
    by (simp add: productChecks_empty_iff list_ex_iff)
  then have checked: "\<forall>product\<in>set items.
      \<exists>q. productQty st (productId product) = Some q \<and> quantity product \<le> q"
    by (auto simp: lacking_def findById_def split: option.splits)
  have "\<forall>p. productQty st' p = map_option (\<lambda>q. q - requested p items) (productQty st p)"
    unfolding st' by (simp add: productQty_productUpdates[OF nothrow] save_def)
  with checked ord show ?thesis by simp
qed (auto split: if_splits)

subsection \<open>What the availability check does achieve\<close>

text \<open>
  The check of line 22 compares every line item with the stock as it is before the
  placement writes. That is enough when nothing else writes between the check and the
  updates and no product is named twice: then placements that run one after the other
  never take more of a product than there was, and its quantity stays at or above zero.
\<close>

lemma requested_distinct:
  "distinct (map productId items) \<Longrightarrow>
   requested p items = 0 \<or>
   (\<exists>product\<in>set items. productId product = p \<and> requested p items = quantity product)"
proof (induction items)
  case Nil
  show ?case by (simp add: requested_def)
next
  case (Cons a rest)
  then have notin: "productId a \<notin> productId ` set rest" and d: "distinct (map productId rest)"
    by simp_all
  show ?case
  proof (cases "productId a = p")
    case True
    with notin have "filter (\<lambda>product. productId product = p) rest = []"
      by (force simp: filter_empty_conv image_iff)
    with True show ?thesis by (simp add: requested_def)
  next
    case False
    with Cons.IH[OF d] show ?thesis by (auto simp: requested_def)
  qed
qed

lemma placement_alone_effect:
  assumes "createOrder allSucceed newId req st = (r, st', log)"
    and "namesOnce req" and "productQty st p = Some q" and "0 \<le> q"
  shows "\<exists>q'. productQty st' p = Some q' \<and> 0 \<le> q' \<and> q' = q - accepted p [r]"
proof (cases rule: createOrder_cases[of req allSucceed newId st])
  case (saved addr items)
  have nothrow: "\<not> list_ex allSucceed (writes items)"
    by (simp add: list_ex_iff allSucceed_def)
  with saved assms(1)
  have r: "r = OrderCreated newId \<lparr>orderAddress = addr, orderProducts = items\<rparr>"
    by simp
  from created_order_effect[OF assms(1)[unfolded r]] assms(3)
  have chk: "\<forall>product\<in>set items.
      \<exists>q. productQty st (productId product) = Some q \<and> quantity product \<le> q"
    and eff: "productQty st' p = Some (q - requested p items)"
    by simp_all
  from saved assms(2) have "distinct (map productId items)" by (simp add: namesOnce_def)
  from requested_distinct[OF this, of p] chk assms(3,4) have "0 \<le> q - requested p items"
    by auto
  with eff r show ?thesis by simp
qed (use assms in \<open>auto simp: allSucceed_def list_ex_iff\<close>)

lemma placements_in_turn_do_not_oversell:
  assumes "placeAll allSucceed reqs st = (rs, st')"
    and "list_all (\<lambda>(newId, req). namesOnce req) reqs"
    and "productQty st p = Some q" and "0 \<le> q"
  shows "accepted p rs \<le> q \<and> productQty st' p = Some (q - accepted p rs)"
  using assms
proof (induction reqs arbitrary: st q rs)
  case Nil
  then show ?case by simp
next
  case (Cons a later)
  obtain newId req where a: "a = (newId, req)" by (cases a)
  obtain r st1 log where one: "createOrder allSucceed newId req st = (r, st1, log)"
    by (cases "createOrder allSucceed newId req st")
  obtain rs' where rest: "placeAll allSucceed later st1 = (rs', st')" and rs: "rs = r # rs'"
    using Cons.prems(1) a one by (auto split: prod.splits)
  from Cons.prems(2) a have once: "namesOnce req"
    and later: "list_all (\<lambda>(newId, req). namesOnce req) later"
    by simp_all
  from placement_alone_effect[OF one once Cons.prems(3,4)]
  have q1: "productQty st1 p = Some (q - accepted p [r])" and nonneg: "0 \<le> q - accepted p [r]"
    by auto
  from Cons.IH[OF rest later q1 nonneg]
  have "accepted p rs' \<le> q - accepted p [r]"
    and "productQty st' p = Some (q - accepted p [r] - accepted p rs')" by simp_all
  moreover have "accepted p rs = accepted p [r] + accepted p rs'"
    unfolding rs by (cases r) simp_all
  ultimately show ?case by simp
qed

section \<open>The claims\<close>

subsection \<open>C1: no overselling across placements in flight together\<close>

text \<open>
  Claim C1: for a product with initial stock \<open>Q\<close>, however placements against it run
  together, the requested quantities of those that are accepted never sum above \<open>Q\<close>,
  and every other placement is rejected with a shortage.

  The code does not keep this. Stock 5 of one product, two placements that each ask for
  3: when both reads complete before either update, both checks see 5, both orders are
  created and the quantity ends at \<open>-1\<close>. Accepted: 6 of a stock of 5.
\<close>

theorem interleaved_placements_oversell:
  "run allSucceed [0, 1, 0, 1, 0, 1]
     ([start order1 (request [item idA 3]), start order2 (request [item idA 3])], stockOf idA 5) =
   ([Responded (OrderCreated order1 (placed [item idA 3])),
     Responded (OrderCreated order2 (placed [item idA 3]))],
    \<lparr>productQty = [idA \<mapsto> - 1],
     orders = [order1 \<mapsto> placed [item idA 3], order2 \<mapsto> placed [item idA 3]]\<rparr>)"
  by (simp add: step_defs scenario_defs)

subsection \<open>C2: the stored quantity never falls below zero\<close>

text \<open>
  Claim C2: after every placement, also one whose line items name the same product more
  than once, every product's stored quantity is at least zero.

  The code does not keep this. Stock 5 and one request with two line items of 3 for the
  same product: each item alone passes the check against 5, the order is created, and
  both updates are applied; the quantity ends at \<open>-1\<close>.
\<close>

theorem repeated_product_drives_stock_negative:
  "createOrder allSucceed order1 (request [item idA 3, item idA 3]) (stockOf idA 5) =
     (OrderCreated order1 (placed [item idA 3, item idA 3]),
      \<lparr>productQty = [idA \<mapsto> - 1], orders = [order1 \<mapsto> placed [item idA 3, item idA 3]]\<rparr>,
      [FindProduct idA, FindProduct idA, SaveOrder order1 (placed [item idA 3, item idA 3]),
       IncProduct idA (- 3), IncProduct idA (- 3)])"
  by (simp add: handler_defs scenario_defs)

subsection \<open>C3: the decrement is conditional on the quantity at that moment\<close>

text \<open>
  Claim C3: the decrement of a line item is applied only if the product's quantity at
  the moment of the decrement is at least the requested quantity; otherwise the item
  fails and the quantity stays.

  The code does not keep this. Stock 4, a first placement asking for 3 and a second
  asking for 2. Both reads complete first; the first placement saves and updates, which
  leaves 1. The second placement's update then finds 1, less than the 2 it asks for, and
  is applied all the same: the quantity becomes \<open>-1\<close> and the order is created.
\<close>

theorem decrement_applied_below_requested:
  "run allSucceed [0, 1, 0, 0, 1]
     ([start order1 (request [item idA 3]), start order2 (request [item idA 2])], stockOf idA 4) =
   ([Responded (OrderCreated order1 (placed [item idA 3])),
     Updating order2 (placed [item idA 2]) [item idA 2] False],
    \<lparr>productQty = [idA \<mapsto> 1],
     orders = [order1 \<mapsto> placed [item idA 3], order2 \<mapsto> placed [item idA 2]]\<rparr>)
   \<and> step allSucceed (Updating order2 (placed [item idA 2]) [item idA 2] False)
        \<lparr>productQty = [idA \<mapsto> 1],
         orders = [order1 \<mapsto> placed [item idA 3], order2 \<mapsto> placed [item idA 2]]\<rparr> =
       (Responded (OrderCreated order2 (placed [item idA 2])),
        \<lparr>productQty = [idA \<mapsto> - 1],
         orders = [order1 \<mapsto> placed [item idA 3], order2 \<mapsto> placed [item idA 2]]\<rparr>)"
  by (simp add: step_defs scenario_defs)

subsection \<open>C4: when the order record is written\<close>

text \<open>
  Claim C4 as stated: in every accepted placement the order record is written only after
  every stock decrement of its line items has been applied.

  It fails: the handler saves the order (lines 38 and 39) before it issues the first
  update (lines 41 to 48). Stock 5, request for 3: the calls are the read, the save, and
  only then the update.
\<close>

theorem order_saved_before_decrement:
  "createOrder allSucceed order1 (request [item idA 3]) (stockOf idA 5) =
     (OrderCreated order1 (placed [item idA 3]),
      \<lparr>productQty = [idA \<mapsto> 2], orders = [order1 \<mapsto> placed [item idA 3]]\<rparr>,
      [FindProduct idA, SaveOrder order1 (placed [item idA 3]), IncProduct idA (- 3)])"
  by (simp add: handler_defs scenario_defs)

text \<open>
  Claim C4 as amended: in every accepted placement the order record is written after
  every line item has been read and has passed the availability check, and before any
  stock decrement is issued. The calls of an accepted placement are, in this order, one
  read per line item, the save of the order, one update per line item.
\<close>

theorem order_saved_between_checks_and_decrements:
  assumes "createOrder throws newId req st = (OrderCreated i newOrder, st', log)"
  shows "products req = Some (orderProducts newOrder)
     \<and> productChecks st (orderProducts newOrder) [] = []
     \<and> log = reads (orderProducts newOrder) @ [SaveOrder i newOrder]
               @ writes (orderProducts newOrder)"
  using assms
  by (cases rule: createOrder_cases[of req throws newId st])
     (auto split: if_splits)

theorem order_saved_between_checks_and_decrements_witness:
  "createOrder allSucceed order1 (request [item idA 2, item idB 1]) (stockOf2 idA 5 idB 1) =
     (OrderCreated order1 (placed [item idA 2, item idB 1]),
      \<lparr>productQty = [idA \<mapsto> 3, idB \<mapsto> 0],
       orders = [order1 \<mapsto> placed [item idA 2, item idB 1]]\<rparr>,
      [FindProduct idA, FindProduct idB, SaveOrder order1 (placed [item idA 2, item idB 1]),
       IncProduct idA (- 2), IncProduct idB (- 1)])"
proof -
  let ?run = "createOrder allSucceed order1 (request [item idA 2, item idB 1])
                (stockOf2 idA 5 idB 1)"
  have created: "fst ?run = OrderCreated order1 (placed [item idA 2, item idB 1])"
    and st: "fst (snd ?run) =
      \<lparr>productQty = [idA \<mapsto> 3, idB \<mapsto> 0],
       orders = [order1 \<mapsto> placed [item idA 2, item idB 1]]\<rparr>"
    by (simp_all add: handler_defs scenario_defs)
  from order_saved_between_checks_and_decrements[of allSucceed order1
      "request [item idA 2, item idB 1]" "stockOf2 idA 5 idB 1" order1
      "placed [item idA 2, item idB 1]" "fst (snd ?run)" "snd (snd ?run)"]
    created
  have "snd (snd ?run) =
     [FindProduct idA, FindProduct idB, SaveOrder order1 (placed [item idA 2, item idB 1]),
       IncProduct idA (- 2), IncProduct idB (- 1)]"
    by (simp add: prod_eq_iff reads_def writes_def placed_def item_def)
  with created st show ?thesis by (simp add: prod_eq_iff)
qed

subsection \<open>C5: a shortage rejection leaves the stock as it was\<close>

text \<open>
  Claim C5: when a placement is rejected for insufficient stock, every product's stored
  quantity afterwards is what it was before; no partial decrement survives.

  The handler answers a shortage before it writes anything: the store it leaves is the
  store it found, and the only calls it has issued are reads.
\<close>

theorem shortage_rejection_changes_nothing:
  assumes "createOrder throws newId req st = (Insufficient errs, st', log)"
  shows "st' = st \<and> productQty st' = productQty st
     \<and> list_all (\<lambda>c. \<exists>p. c = FindProduct p) log"
  using assms
  by (cases rule: createOrder_cases[of req throws newId st])
     (auto simp: reads_def list_all_iff split: if_splits)

theorem shortage_rejection_changes_nothing_witness:
  "createOrder allSucceed order1 (request [item idA 2, item idB 2]) (stockOf2 idA 5 idB 1) =
     (Insufficient [notEnough], stockOf2 idA 5 idB 1, [FindProduct idA, FindProduct idB])
   \<and> productQty (stockOf2 idA 5 idB 1) idA = Some 5
   \<and> productQty (stockOf2 idA 5 idB 1) idB = Some 1"
proof -
  have rejected:
    "createOrder allSucceed order1 (request [item idA 2, item idB 2]) (stockOf2 idA 5 idB 1) =
       (Insufficient [notEnough], stockOf2 idA 5 idB 1, [FindProduct idA, FindProduct idB])"
    by (simp add: handler_defs scenario_defs)
  from shortage_rejection_changes_nothing[OF rejected] rejected
  show ?thesis by (simp add: stockOf2_def)
qed

subsection \<open>C6: requests with a quantity that is not positive\<close>

text \<open>
  Claim C6 as stated: a request in which some quantity is zero or negative is rejected
  as invalid input before any store access, and no product quantity changes.

  It fails: the guard of line 9 looks at the address and at the list of line items, not
  at the quantities. A request for 0 of one product and \<open>-2\<close> of another is read,
  saved and applied: the order is created and the second product goes from 1 to 3.
\<close>

theorem nonpositive_quantities_reach_the_store:
  "createOrder allSucceed order1 (request [item idA 0, item idB (- 2)]) (stockOf2 idA 5 idB 1) =
     (OrderCreated order1 (placed [item idA 0, item idB (- 2)]),
      \<lparr>productQty = [idA \<mapsto> 5, idB \<mapsto> 3],
       orders = [order1 \<mapsto> placed [item idA 0, item idB (- 2)]]\<rparr>,
      [FindProduct idA, FindProduct idB, SaveOrder order1 (placed [item idA 0, item idB (- 2)]),
       IncProduct idA 0, IncProduct idB 2])"
  by (simp add: handler_defs scenario_defs)

text \<open>
  Claim C6 as amended: a request is rejected as invalid input exactly when its delivery
  address is missing or its line items are missing, not an array or empty; the rejection
  comes before any store access and changes nothing. The quantities play no part in it.
\<close>

theorem input_rejection_looks_at_address_and_list_only:
  assumes "createOrder throws newId req st = (r, st', log)"
  shows "(r = InvalidInput \<longleftrightarrow>
            deliveryAddress req = None \<or> products req = None \<or> products req = Some [])
     \<and> (r = InvalidInput \<longrightarrow> st' = st \<and> log = [])"
  using assms
  by (cases rule: createOrder_cases[of req throws newId st]) (auto split: if_splits)

theorem input_rejection_looks_at_address_and_list_only_witness:
  "createOrder allSucceed order1 \<lparr>deliveryAddress = None, products = Some [item idA 3]\<rparr>
     (stockOf idA 5) =
   (InvalidInput, stockOf idA 5, [])"
proof -
  let ?run = "createOrder allSucceed order1
                \<lparr>deliveryAddress = None, products = Some [item idA 3]\<rparr> (stockOf idA 5)"
  have "?run = (fst ?run, fst (snd ?run), snd (snd ?run))" by simp
  from input_rejection_looks_at_address_and_list_only[OF this]
  show ?thesis by (simp add: prod_eq_iff)
qed

subsection \<open>C7: what a shortage rejection carries\<close>

text \<open>
  Claim C7 as stated: the payload of a shortage rejection has one entry per insufficient
  line item, each naming the item's product, collected over all items.

  It fails in the naming: every entry is the same sentence. A shortage of one product
  and a shortage of another give the same payload.
\<close>

theorem shortage_payload_does_not_name_product:
  "fst (createOrder allSucceed order1 (request [item idA 3]) (stockOf2 idA 2 idB 5)) =
     Insufficient [''Not enough quantity available for a product'']
   \<and> fst (createOrder allSucceed order1 (request [item idB 3]) (stockOf2 idA 5 idB 2)) =
     Insufficient [''Not enough quantity available for a product'']"
  by (simp add: handler_defs scenario_defs notEnough_def)

text \<open>
  Claim C7 as amended: the payload of a shortage rejection has one entry per insufficient
  line item, collected over all line items and not cut short at the first; every entry
  is the fixed text "Not enough quantity available for a product" and names no product.
\<close>

theorem shortage_payload_one_message_per_lacking_item:
  assumes "createOrder throws newId req st = (Insufficient errs, st', log)"
  shows "\<exists>items. products req = Some items \<and> errs \<noteq> [] \<and>
     errs = replicate
       (length (filter (\<lambda>product. lacking (findById st (productId product)) (quantity product))
          items))
       notEnough"
  using assms
  by (cases rule: createOrder_cases[of req throws newId st])
     (auto simp: productChecks_replicate split: if_splits)

theorem shortage_payload_one_message_per_lacking_item_witness:
  "createOrder allSucceed order1 (request [item idA 3, item idB 1, item idC 1])
     (stockOf2 idA 2 idB 5) =
     (Insufficient [notEnough, notEnough], stockOf2 idA 2 idB 5,
      [FindProduct idA, FindProduct idB, FindProduct idC])
   \<and> length (filter (\<lambda>product.
          lacking (findById (stockOf2 idA 2 idB 5) (productId product)) (quantity product))
        [item idA 3, item idB 1, item idC 1]) = 2"
proof -
  let ?lacks = "filter (\<lambda>product.
      lacking (findById (stockOf2 idA 2 idB 5) (productId product)) (quantity product))
    [item idA 3, item idB 1, item idC 1]"
  have rejected:
    "createOrder allSucceed order1 (request [item idA 3, item idB 1, item idC 1])
       (stockOf2 idA 2 idB 5) =
     (Insufficient [notEnough, notEnough], stockOf2 idA 2 idB 5,
      [FindProduct idA, FindProduct idB, FindProduct idC])"
    by (simp add: handler_defs scenario_defs)
  from shortage_payload_one_message_per_lacking_item[OF rejected]
  have "[notEnough, notEnough] = replicate (length ?lacks) notEnough"
    by (simp add: request_def del: filter.simps)
  then have "length [notEnough, notEnough] = length (replicate (length ?lacks) notEnough)"
    by (rule arg_cong)
  then have "length ?lacks = 2"
    by (simp del: filter.simps)
  with rejected show ?thesis by simp
qed

subsection \<open>C8: a product that is not in the store\<close>

text \<open>
  Claim C8: a line item whose product identifier resolves to no stored product is
  classified by the availability check as insufficient, the same outcome as a product
  with too little stock, not as an error of its own or a thrown failure.

  The read returns nothing, the callback pushes the one shortage message, just as it
  does for the same item were the product there with less than the requested quantity,
  and the placement is answered with a shortage rejection.
\<close>

theorem missing_product_is_insufficient:
  assumes "findById st (productId product) = None"
    and "deliveryAddress req = Some addr" and "products req = Some items"
    and "product \<in> set items" and "\<not> list_ex throws (reads items)"
  shows "productCheck st product = [notEnough]
    \<and> (\<forall>q. q < quantity product \<longrightarrow>
          productCheck (st\<lparr>productQty := (productQty st)(productId product \<mapsto> q)\<rparr>) product =
          productCheck st product)
    \<and> (\<exists>errs. createOrder throws newId req st = (Insufficient errs, st, reads items)
          \<and> notEnough \<in> set errs)"
proof -
  have under: "\<forall>q. q < quantity product \<longrightarrow>
      productCheck (st\<lparr>productQty := (productQty st)(productId product \<mapsto> q)\<rparr>) product =
      [notEnough]"
    by (simp add: productCheck_def lacking_def findById_def)
  from assms(1) have one: "productCheck st product = [notEnough]"
    by (simp add: productCheck_def lacking_def)
  from assms(4) have ne: "items \<noteq> []" by auto
  from assms(4) one have "notEnough \<in> set (productChecks st items [])"
    by (force simp: productChecks_append)
  moreover then have "productChecks st items [] \<noteq> []" by auto
  ultimately show ?thesis using one under assms(2,3,5) ne
    by (cases rule: createOrder_cases[of req throws newId st]) auto
qed

theorem missing_product_is_insufficient_witness:
  "findById (stockOf idA 5) (productId (item idB 1)) = None
   \<and> productCheck (stockOf idA 5) (item idB 1) = [notEnough]
   \<and> createOrder allSucceed order1 (request [item idA 1, item idB 1]) (stockOf idA 5) =
       (Insufficient [notEnough], stockOf idA 5, [FindProduct idA, FindProduct idB])"
proof -
  have missing: "findById (stockOf idA 5) (productId (item idB 1)) = None"
    by (simp add: findById_def scenario_defs)
  have "productCheck (stockOf idA 5) (item idB 1) = [notEnough]"
    using missing_product_is_insufficient[OF missing, of "request [item idA 1, item idB 1]"
        anAddress "[item idA 1, item idB 1]" allSucceed order1]
    by (simp add: request_def reads_def allSucceed_def)
  moreover
  have "createOrder allSucceed order1 (request [item idA 1, item idB 1]) (stockOf idA 5) =
       (Insufficient [notEnough], stockOf idA 5, [FindProduct idA, FindProduct idB])"
    by (simp add: handler_defs scenario_defs)
  ultimately show ?thesis using missing by simp
qed

subsection \<open>C9: the line items of an order under \<open>updateOrder\<close>\<close>




subsection \<open>C10: a negative quantity raises the stock\<close>

text \<open>
  Claim C10: there are requests with a line item of negative quantity, against a product
  that exists with stock at or above zero, that pass the shape validation and the
  availability check, are accepted, and raise the product's stored quantity by the
  absolute value of that quantity.

  Every request that consists of one such line item does, as long as none of its three
  store calls fails.
\<close>

theorem negative_quantity_raises_stock:
  assumes "deliveryAddress req = Some addr" and "products req = Some [product]"
    and "quantity product < 0"
    and "productQty st (productId product) = Some q" and "0 \<le> q"
    and "\<not> throws (FindProduct (productId product))"
    and "\<not> throws (SaveOrder newId \<lparr>orderAddress = addr, orderProducts = [product]\<rparr>)"
    and "\<not> throws (IncProduct (productId product) (- quantity product))"
    and "createOrder throws newId req st = (r, st', log)"
  shows "r = OrderCreated newId \<lparr>orderAddress = addr, orderProducts = [product]\<rparr>
     \<and> productQty st' (productId product) = Some (q + \<bar>quantity product\<bar>)
     \<and> q < q + \<bar>quantity product\<bar>"
  using assms
  by (auto simp: handler_defs)

theorem negative_quantity_raises_stock_witness:
  "createOrder allSucceed order1 (request [item idA (- 4)]) (stockOf idA 1) =
     (OrderCreated order1 (placed [item idA (- 4)]),
      \<lparr>productQty = [idA \<mapsto> 5], orders = [order1 \<mapsto> placed [item idA (- 4)]]\<rparr>,
      [FindProduct idA, SaveOrder order1 (placed [item idA (- 4)]), IncProduct idA 4])"
proof -
  let ?run = "createOrder allSucceed order1 (request [item idA (- 4)]) (stockOf idA 1)"
  have ran: "?run =
     (fst ?run,
      \<lparr>productQty = [idA \<mapsto> 5], orders = [order1 \<mapsto> placed [item idA (- 4)]]\<rparr>,
      [FindProduct idA, SaveOrder order1 (placed [item idA (- 4)]), IncProduct idA 4])"
    by (simp add: handler_defs scenario_defs)
  from negative_quantity_raises_stock[of "request [item idA (- 4)]" anAddress "item idA (- 4)"
      "stockOf idA 1" 1 allSucceed order1, OF _ _ _ _ _ _ _ _ ran]
  have "fst ?run = OrderCreated order1 (placed [item idA (- 4)])"
    by (simp add: scenario_defs)
  with ran show ?thesis by simp
qed

end
